theory Spec2Isabelle
  imports Main "HOL-Library.Sublist"
begin

section \<open>Student dashboard: data model\<close>

text \<open>
  The repository holds two versions of one Angular component,
  \<^verbatim>\<open>StudentDashboardComponent\<close>: the richer one, whose students carry a
  short display identifier \<^verbatim>\<open>uid\<close> and whose \<^verbatim>\<open>load\<close> migrates
  older records, and the simple one (\<^verbatim>\<open>student-dashboard.component.ts\<close>)
  without \<^verbatim>\<open>uid\<close>. Functions of the richer version keep their source names;
  those of the simple version carry the prefix \<open>simple_\<close>.

  \<^verbatim>\<open>type Att = 'Present' | 'Absent'\<close>, \<^verbatim>\<open>type Type = 'School' | 'College'\<close> and
  \<^verbatim>\<open>type Filter = 'All' | 'Present' | 'Absent' | 'School' | 'College'\<close> are unions
  of string literals. Each becomes a datatype together with the literal it stands
  for, so that \<^verbatim>\<open>s.attendance === f\<close> stays a comparison of strings.
\<close>

datatype Att = Present | Absent

datatype Type = School | College

datatype Filter = FAll | FPresent | FAbsent | FSchool | FCollege

fun lit_Att :: "Att \<Rightarrow> string" where
  "lit_Att Present = ''Present''"
| "lit_Att Absent = ''Absent''"

fun lit_Type :: "Type \<Rightarrow> string" where
  "lit_Type School = ''School''"
| "lit_Type College = ''College''"

fun lit_Filter :: "Filter \<Rightarrow> string" where
  "lit_Filter FAll = ''All''"
| "lit_Filter FPresent = ''Present''"
| "lit_Filter FAbsent = ''Absent''"
| "lit_Filter FSchool = ''School''"
| "lit_Filter FCollege = ''College''"

text \<open>
  \<^verbatim>\<open>interface Student\<close>: \<^verbatim>\<open>id\<close> (written \<open>id'\<close>), \<^verbatim>\<open>name\<close>, \<^verbatim>\<open>type\<close> and
  \<^verbatim>\<open>attendance\<close>, and in the richer version \<^verbatim>\<open>uid\<close>. The interface is checked
  when the program is compiled and not when it runs, so what a field holds
  depends on how the version fills its list.

  The richer version builds every student itself, in \<^verbatim>\<open>load\<close> and in
  \<^verbatim>\<open>addStudent\<close>: a \<open>student\<close> has an integer \<^verbatim>\<open>id\<close> (it comes from
  \<^verbatim>\<open>Date.now()\<close>), strings for \<^verbatim>\<open>name\<close> and \<^verbatim>\<open>uid\<close>, and a \<^verbatim>\<open>type\<close> and an
  \<^verbatim>\<open>attendance\<close> that \<^verbatim>\<open>load\<close> has brought into range.

  The simple version assigns what \<^verbatim>\<open>JSON.parse\<close> returns under the cast
  \<^verbatim>\<open>as Student[]\<close>, which checks nothing: a field of a \<open>student_simple\<close> holds
  whatever the stored record had. \<open>js_value\<close> is such a field: missing
  (\<^verbatim>\<open>undefined\<close> when read), \<^verbatim>\<open>null\<close>, a number or a string, compared by
  \<^verbatim>\<open>===\<close> as values. Fields that hold booleans, arrays or objects are not
  represented.
\<close>

datatype js_value = Undefined | Null | Num int | Str string

record ('i, 'n, 't, 'a) student_fields =
  id' :: 'i
  name :: 'n
  type :: 't
  attendance :: 'a

type_synonym student_simple = "(js_value, js_value, js_value, js_value) student_fields"

record student = "(int, string, Type, Att) student_fields" +
  uid :: string

section \<open>Strings and numbers of the platform\<close>

text \<open>
  \<^verbatim>\<open>String.prototype.slice(start, end)\<close>: a negative index counts from the
  end, every index is clamped to the string, and an empty range gives the empty
  string. \<open>slice_from\<close> is the call with one argument.
\<close>

definition clamp_index :: "nat \<Rightarrow> int \<Rightarrow> nat" where
  "clamp_index len i = (if i < 0 then nat (max (int len + i) 0) else min (nat i) len)"

definition slice :: "string \<Rightarrow> int \<Rightarrow> int \<Rightarrow> string" where
  "slice s b e =
     (let from = clamp_index (length s) b; to = clamp_index (length s) e
      in take (to - from) (drop from s))"

definition slice_from :: "string \<Rightarrow> int \<Rightarrow> string" where
  "slice_from s b = slice s b (int (length s))"

text \<open>
  \<^verbatim>\<open>toUpperCase\<close> on the ASCII letters; every other byte is left as it is
  (the strings it is applied to here are renderings of numbers in base 36).
\<close>

definition upper_char :: "char \<Rightarrow> char" where
  "upper_char c =
     (case map_of (zip ''abcdefghijklmnopqrstuvwxyz'' ''ABCDEFGHIJKLMNOPQRSTUVWXYZ'') c of
        Some u \<Rightarrow> u
      | None \<Rightarrow> c)"

definition toUpperCase :: "string \<Rightarrow> string" where
  "toUpperCase s = map upper_char s"

text \<open>
  \<^verbatim>\<open>Number.prototype.toString(36)\<close> on an integer: digits \<^verbatim>\<open>0-9a-z\<close>, most
  significant first, a minus sign before a negative number.
\<close>

definition digit36 :: "nat \<Rightarrow> char" where
  "digit36 d = ''0123456789abcdefghijklmnopqrstuvwxyz'' ! d"

function toString36_nat :: "nat \<Rightarrow> string" where
  "toString36_nat n =
     (if n < 36 then [digit36 n] else toString36_nat (n div 36) @ [digit36 (n mod 36)])"
  by pat_completeness auto
termination
  by (relation "measure (\<lambda>n. n)") auto

declare toString36_nat.simps [simp del]

definition toString36 :: "int \<Rightarrow> string" where
  "toString36 i = (if i < 0 then CHR ''-'' # toString36_nat (nat (- i)) else toString36_nat (nat i))"

text \<open>
  \<^verbatim>\<open>String.prototype.trim\<close>. A \<open>char\<close> is read as a code unit below 256; the
  white space and line terminators among these are tab, line feed, vertical
  tab, form feed, carriage return, space and the no-break space. The ones from
  256 on (U+FEFF, U+2028 and others) cannot occur in a \<open>string\<close>.
\<close>

definition is_space :: "char \<Rightarrow> bool" where
  "is_space c = (c \<in> set [CHR 0x09, CHR 0x0A, CHR 0x0B, CHR 0x0C, CHR 0x0D, CHR 0x20, CHR 0xA0])"

definition trim :: "string \<Rightarrow> string" where
  "trim s = rev (dropWhile is_space (rev (dropWhile is_space s)))"

section \<open>The identifier generator\<close>

text \<open>
  \<^verbatim>\<open>makeUID\<close> reads the clock and the random source:
  \<^verbatim>\<open>
  const partA = Date.now().toString(36).toUpperCase().slice(-4);
  const partB = Math.random().toString(36).toUpperCase().slice(2, 6);
  return `STU-${partA}${partB}`;
  \<close>
  \<open>makeUID_at t r\<close> is its result when \<^verbatim>\<open>Date.now()\<close> returns \<open>t\<close> and
  \<^verbatim>\<open>Math.random().toString(36)\<close> returns \<open>r\<close>. The random number is a
  floating-point value in \<open>[0, 1)\<close>; only its rendering in base 36 enters the
  identifier, so the rendering itself is the parameter: \<^verbatim>\<open>0.5\<close> renders as
  \<^verbatim>\<open>0.i\<close>, \<^verbatim>\<open>0.25\<close> as \<^verbatim>\<open>0.9\<close>, \<^verbatim>\<open>0\<close> as \<^verbatim>\<open>0\<close>, and a number with a full
  mantissa as \<^verbatim>\<open>0.\<close> followed by about eleven digits.
\<close>

definition partA :: "int \<Rightarrow> string" where
  "partA t = slice_from (toUpperCase (toString36 t)) (- 4)"

definition partB :: "string \<Rightarrow> string" where
  "partB r = slice (toUpperCase r) 2 6"

definition makeUID_at :: "int \<Rightarrow> string \<Rightarrow> string" where
  "makeUID_at t r = ''STU-'' @ partA t @ partB r"

text \<open>The upper-case digits of base 36.\<close>

definition base36_upper :: "char \<Rightarrow> bool" where
  "base36_upper c = (c \<in> set ''0123456789ABCDEFGHIJKLMNOPQRSTUVWXYZ'')"

definition base36_lower :: "char \<Rightarrow> bool" where
  "base36_lower c = (c \<in> set ''0123456789abcdefghijklmnopqrstuvwxyz'')"

section \<open>The component and its surroundings\<close>

text \<open>
  The clock and the random source are inputs of the program. \<open>Date_now E n\<close> is
  what the \<open>n\<close>-th call of \<^verbatim>\<open>Date.now()\<close> returns and \<open>Math_random E n\<close> is
  the base-36 rendering of what the \<open>n\<close>-th call of \<^verbatim>\<open>Math.random()\<close> returns;
  the component counts its calls in \<open>ticks\<close> and \<open>draws\<close>.
\<close>

record env =
  Date_now :: "nat \<Rightarrow> int"
  Math_random :: "nat \<Rightarrow> string"

text \<open>
  The slot \<^verbatim>\<open>'students'\<close> of \<^verbatim>\<open>localStorage\<close> holds text. The model keeps
  what \<^verbatim>\<open>localStorage.getItem\<close> and \<^verbatim>\<open>JSON.parse\<close> make of it: no item
  (\<^verbatim>\<open>null\<close>), the empty string, text that \<^verbatim>\<open>JSON.parse\<close> rejects, or text that
  parses to an array of records. Text that parses to anything else (an object,
  \<^verbatim>\<open>null\<close>, an array with an element that is no record) is not represented.
  \<^verbatim>\<open>JSON.stringify\<close> followed by \<^verbatim>\<open>JSON.parse\<close> gives back an array of
  objects with string and integer fields as it was.
\<close>

datatype 'e slot = NoItem | EmptyText | BadText | Items "'e list"

datatype js_error = SyntaxError

text \<open>
  The richer version reads the parsed array as \<^verbatim>\<open>any[]\<close>: an element is an
  object in which each of the five fields may be missing (or \<^verbatim>\<open>null\<close>), and in
  which \<^verbatim>\<open>type\<close> and \<^verbatim>\<open>attendance\<close> are any strings. The simple version casts
  the parsed array to \<^verbatim>\<open>Student[]\<close>, so its slot holds students.
\<close>

record raw_student =
  raw_id :: "int option"
  raw_uid :: "string option"
  raw_name :: "string option"
  raw_type :: "string option"
  raw_attendance :: "string option"

text \<open>
  What \<^verbatim>\<open>renderChart\<close> leaves in the anchor element: nothing yet, a lone text, or
  a donut of slices with a text in its centre. The percentage in the text
  \<^verbatim>\<open>${pct}% Present\<close> is \<^verbatim>\<open>Math.round((presentCount / total) * 100)\<close>, computed
  in floating point; the caption records the two counts it is computed from.
\<close>

record slice_datum =
  label :: string
  value' :: nat

datatype caption = NoData | PercentPresent nat nat

datatype drawing = Blank | TextOnly caption | Donut "slice_datum list" caption

text \<open>
  \<^verbatim>\<open>setTimeout(callback, delay)\<close> queues a callback; the only one in the program
  is the arrow function of \<^verbatim>\<open>cancelEdit\<close>.
\<close>

datatype callback = CloseModal

text \<open>
  The fields of the component (\<^verbatim>\<open>addForm\<close> flattened into two), followed by
  what it reads and writes outside itself: the storage slot, the anchor element
  of the chart (\<open>None\<close> when the element does not exist), the queue of timers
  and the numbers of clock reads and random draws so far.
\<close>

record ('s, 'e) component =
  students :: "'s list"
  filteredStudents :: "'s list"
  currentFilter :: Filter
  totalCount :: nat
  presentCount :: nat
  absentCount :: nat
  addForm_name :: string
  addForm_type :: Type
  showEditModal :: bool
  modalClosing :: bool
  editModel :: "'s option"
  viewReady :: bool
  localStorage :: "'e slot"
  attendanceDonut :: "drawing option"
  timers :: "(nat \<times> callback) list"
  ticks :: nat
  draws :: nat

definition initial :: "'e slot \<Rightarrow> drawing option \<Rightarrow> ('s, 'e) component" where
  "initial stored anchor =
     \<lparr>students = [], filteredStudents = [], currentFilter = FAll,
      totalCount = 0, presentCount = 0, absentCount = 0,
      addForm_name = [], addForm_type = School,
      showEditModal = False, modalClosing = False, editModel = None,
      viewReady = False,
      localStorage = stored, attendanceDonut = anchor, timers = [], ticks = 0, draws = 0\<rparr>"

definition Date_now_next :: "env \<Rightarrow> ('s, 'e) component \<Rightarrow> int \<times> ('s, 'e) component" where
  "Date_now_next E st = (Date_now E (ticks st), st\<lparr>ticks := Suc (ticks st)\<rparr>)"

definition Math_random_next :: "env \<Rightarrow> ('s, 'e) component \<Rightarrow> string \<times> ('s, 'e) component" where
  "Math_random_next E st = (Math_random E (draws st), st\<lparr>draws := Suc (draws st)\<rparr>)"

definition makeUID :: "env \<Rightarrow> ('s, 'e) component \<Rightarrow> string \<times> ('s, 'e) component" where
  "makeUID E st =
     (let (t, st1) = Date_now_next E st;
          (r, st2) = Math_random_next E st1
      in (makeUID_at t r, st2))"

text \<open>
  The identifier that \<^verbatim>\<open>makeUID\<close> returns at the \<open>t\<close>-th reading of the clock and
  the \<open>d\<close>-th random draw.
\<close>

definition drawn :: "env \<Rightarrow> nat \<Rightarrow> nat \<Rightarrow> string" where
  "drawn E t d = makeUID_at (Date_now E t) (Math_random E d)"

text \<open>\<^verbatim>\<open>Array.prototype.findIndex\<close>: the first index that satisfies, or \<open>-1\<close>.\<close>

fun findIndexFrom :: "('a \<Rightarrow> bool) \<Rightarrow> nat \<Rightarrow> 'a list \<Rightarrow> int" where
  "findIndexFrom P i [] = - 1"
| "findIndexFrom P i (x # xs) = (if P x then int i else findIndexFrom P (Suc i) xs)"

definition findIndex :: "('a \<Rightarrow> bool) \<Rightarrow> 'a list \<Rightarrow> int" where
  "findIndex P xs = findIndexFrom P 0 xs"

section \<open>The richer version\<close>

subsection \<open>Local storage\<close>

definition toJSON :: "student \<Rightarrow> raw_student" where
  "toJSON s =
     \<lparr>raw_id = Some (id' s), raw_uid = Some (uid s), raw_name = Some (name s),
      raw_type = Some (lit_Type (type s)), raw_attendance = Some (lit_Att (attendance s))\<rparr>"

definition save :: "(student, raw_student) component \<Rightarrow> (student, raw_student) component" where
  "save st = st\<lparr>localStorage := Items (map toJSON (students st))\<rparr>"

text \<open>\<^verbatim>\<open>raw ? JSON.parse(raw) : []\<close> for \<^verbatim>\<open>raw = localStorage.getItem('students')\<close>.\<close>

fun parse_or_empty :: "'e slot \<Rightarrow> js_error + 'e list" where
  "parse_or_empty NoItem = Inr []"
| "parse_or_empty EmptyText = Inr []"
| "parse_or_empty BadText = Inl SyntaxError"
| "parse_or_empty (Items es) = Inr es"

text \<open>
  The callback of \<^verbatim>\<open>parsed.map\<close>, field by field in the order of the object
  literal, and the map itself, element by element.
\<close>

definition migrate_one ::
  "env \<Rightarrow> raw_student \<Rightarrow> (student, raw_student) component
     \<Rightarrow> student \<times> (student, raw_student) component" where
  "migrate_one E s st =
     (let (i, st1) = (case raw_id s of Some i \<Rightarrow> (i, st) | None \<Rightarrow> Date_now_next E st);
          (u, st2) = (case raw_uid s of Some u \<Rightarrow> (u, st1) | None \<Rightarrow> makeUID E st1)
      in (\<lparr>id' = i,
           name = (case raw_name s of Some n \<Rightarrow> n | None \<Rightarrow> []),
           type = (if raw_type s = Some ''College'' then College else School),
           attendance = (if raw_attendance s = Some ''Absent'' then Absent else Present),
           uid = u\<rparr>, st2))"

fun migrate ::
  "env \<Rightarrow> raw_student list \<Rightarrow> (student, raw_student) component
     \<Rightarrow> student list \<times> (student, raw_student) component" where
  "migrate E [] st = ([], st)"
| "migrate E (s # rest) st =
     (let (s', st1) = migrate_one E s st;
          (rest', st2) = migrate E rest st1
      in (s' # rest', st2))"

text \<open>
  \<^verbatim>\<open>
  const seen = new Set<string>();
  this.students.forEach(s => {
    if (seen.has(s.uid)) s.uid = this.makeUID();
    seen.add(s.uid);
  });
  \<close>
\<close>

fun ensureUnique ::
  "env \<Rightarrow> string set \<Rightarrow> student list \<Rightarrow> (student, raw_student) component
     \<Rightarrow> student list \<times> (student, raw_student) component" where
  "ensureUnique E seen [] st = ([], st)"
| "ensureUnique E seen (s # rest) st =
     (let (s', st1) =
            (if uid s \<in> seen then (let (u, st1) = makeUID E st in (s\<lparr>uid := u\<rparr>, st1))
             else (s, st));
          (rest', st2) = ensureUnique E (insert (uid s') seen) rest st1
      in (s' # rest', st2))"

definition load ::
  "env \<Rightarrow> (student, raw_student) component \<Rightarrow> js_error + (student, raw_student) component" where
  "load E st =
     (case parse_or_empty (localStorage st) of
        Inl e \<Rightarrow> Inl e
      | Inr parsed \<Rightarrow>
          (let (migrated, st1) = migrate E parsed st;
               (unique, st2) = ensureUnique E {} migrated (st1\<lparr>students := migrated\<rparr>)
           in Inr (save (st2\<lparr>students := unique\<rparr>))))"

subsection \<open>Filtering, statistics and the chart\<close>

definition updateStats :: "(student, raw_student) component \<Rightarrow> (student, raw_student) component" where
  "updateStats st =
     st\<lparr>totalCount := length (filteredStudents st),
        presentCount := length (filter (\<lambda>s. lit_Att (attendance s) = ''Present'') (filteredStudents st)),
        absentCount := length (filter (\<lambda>s. lit_Att (attendance s) = ''Absent'') (filteredStudents st))\<rparr>"

definition renderChart :: "(student, raw_student) component \<Rightarrow> (student, raw_student) component" where
  "renderChart st =
     (if \<not> viewReady st \<or> attendanceDonut st = None then st
      else
        (let total = presentCount st + absentCount st
         in if total = 0 then st\<lparr>attendanceDonut := Some (TextOnly NoData)\<rparr>
            else
              (let data = filter (\<lambda>d. value' d > 0)
                            [\<lparr>label = ''Present'', value' = presentCount st\<rparr>,
                             \<lparr>label = ''Absent'', value' = absentCount st\<rparr>]
               in st\<lparr>attendanceDonut := Some (Donut data (PercentPresent (presentCount st) total))\<rparr>)))"

text \<open>The \<^verbatim>\<open>switch\<close> of \<^verbatim>\<open>applyFilter\<close>: what \<^verbatim>\<open>filteredStudents\<close> becomes.\<close>

fun select :: "Filter \<Rightarrow> student list \<Rightarrow> student list" where
  "select FPresent ss = filter (\<lambda>s. lit_Att (attendance s) = lit_Filter FPresent) ss"
| "select FAbsent ss = filter (\<lambda>s. lit_Att (attendance s) = lit_Filter FAbsent) ss"
| "select FSchool ss = filter (\<lambda>s. lit_Type (type s) = lit_Filter FSchool) ss"
| "select FCollege ss = filter (\<lambda>s. lit_Type (type s) = lit_Filter FCollege) ss"
| "select FAll ss = ss"

definition applyFilter :: "Filter \<Rightarrow> (student, raw_student) component \<Rightarrow> (student, raw_student) component" where
  "applyFilter f st =
     renderChart (updateStats (st\<lparr>currentFilter := f, filteredStudents := select f (students st)\<rparr>))"

definition clearFilter :: "(student, raw_student) component \<Rightarrow> (student, raw_student) component" where
  "clearFilter st = applyFilter FAll st"

subsection \<open>Adding, deleting, editing\<close>

definition addStudent :: "env \<Rightarrow> (student, raw_student) component \<Rightarrow> (student, raw_student) component" where
  "addStudent E st =
     (let nm = trim (addForm_name st)
      in if nm = [] then st
         else
           (let (t, st1) = Date_now_next E st;
                (u, st2) = makeUID E st1;
                newStudent = \<lparr>id' = t, name = nm, type = addForm_type st, attendance = Present, uid = u\<rparr>;
                st3 = save (st2\<lparr>students := students st2 @ [newStudent]\<rparr>);
                st4 = st3\<lparr>addForm_name := [], addForm_type := School\<rparr>
            in applyFilter (currentFilter st4) st4))"

text \<open>\<open>confirmed\<close> is the answer to \<^verbatim>\<open>confirm('Delete this student?')\<close>.\<close>

definition deleteStudent :: "bool \<Rightarrow> int \<Rightarrow> (student, raw_student) component \<Rightarrow> (student, raw_student) component" where
  "deleteStudent confirmed i st =
     (if \<not> confirmed then st
      else
        (let st1 = save (st\<lparr>students := filter (\<lambda>s. id' s \<noteq> i) (students st)\<rparr>)
         in applyFilter (currentFilter st1) st1))"

definition openEdit :: "'s \<Rightarrow> ('s, 'e) component \<Rightarrow> ('s, 'e) component" where
  "openEdit s st = st\<lparr>editModel := Some s, showEditModal := True\<rparr>"

definition cancelEdit :: "('s, 'e) component \<Rightarrow> ('s, 'e) component" where
  "cancelEdit st = st\<lparr>modalClosing := True, timers := timers st @ [(250, CloseModal)]\<rparr>"

text \<open>Running a queued callback, and the first timer of the queue going off.\<close>

fun run_callback :: "callback \<Rightarrow> ('s, 'e) component \<Rightarrow> ('s, 'e) component" where
  "run_callback CloseModal st = st\<lparr>showEditModal := False, modalClosing := False, editModel := None\<rparr>"

definition timer_fires :: "('s, 'e) component \<Rightarrow> ('s, 'e) component" where
  "timer_fires st =
     (case timers st of
        [] \<Rightarrow> st
      | (d, cb) # rest \<Rightarrow> run_callback cb (st\<lparr>timers := rest\<rparr>))"

definition saveEdit :: "(student, raw_student) component \<Rightarrow> (student, raw_student) component" where
  "saveEdit st =
     (case editModel st of
        None \<Rightarrow> st
      | Some m \<Rightarrow>
          (let idx = findIndex (\<lambda>s. id' s = id' m) (students st);
               st1 = (if idx > - 1
                      then (let st' = save (st\<lparr>students := (students st)[nat idx := m]\<rparr>)
                            in applyFilter (currentFilter st') st')
                      else st)
           in cancelEdit st1))"

definition onAttendanceChange ::
  "student \<Rightarrow> Att \<Rightarrow> (student, raw_student) component \<Rightarrow> (student, raw_student) component" where
  "onAttendanceChange student att st =
     (let idx = findIndex (\<lambda>s. id' s = id' student) (students st)
      in if idx > - 1
         then (let st' = save (st\<lparr>students :=
                                   (students st)[nat idx := (students st ! nat idx)\<lparr>attendance := att\<rparr>]\<rparr>)
               in applyFilter (currentFilter st') st')
         else st)"

subsection \<open>Lifecycle\<close>

definition ngOnInit ::
  "env \<Rightarrow> (student, raw_student) component \<Rightarrow> js_error + (student, raw_student) component" where
  "ngOnInit E st =
     (case load E st of
        Inl e \<Rightarrow> Inl e
      | Inr st1 \<Rightarrow> Inr (applyFilter FAll st1))"

definition ngAfterViewInit :: "(student, raw_student) component \<Rightarrow> (student, raw_student) component" where
  "ngAfterViewInit st = renderChart (st\<lparr>viewReady := True\<rparr>)"

section \<open>The simple version\<close>

text \<open>
  \<^verbatim>\<open>student-dashboard.component.ts\<close>. Its \<^verbatim>\<open>openEdit\<close> and \<^verbatim>\<open>cancelEdit\<close> are
  those above. Its \<^verbatim>\<open>updateStats\<close>, \<^verbatim>\<open>applyFilter\<close>, \<^verbatim>\<open>deleteStudent\<close>,
  \<^verbatim>\<open>saveEdit\<close> and \<^verbatim>\<open>onAttendanceChange\<close> have the text of the richer
  version's; they are given again because its records are \<open>student_simple\<close>:
  \<^verbatim>\<open>s.attendance === 'Present'\<close> compares whatever the field holds with the
  string.
\<close>

definition simple_save ::
  "(student_simple, student_simple) component \<Rightarrow> (student_simple, student_simple) component" where
  "simple_save st = st\<lparr>localStorage := Items (students st)\<rparr>"

text \<open>\<^verbatim>\<open>this.students = raw ? (JSON.parse(raw) as Student[]) : []\<close>\<close>

definition simple_load ::
  "(student_simple, student_simple) component
     \<Rightarrow> js_error + (student_simple, student_simple) component" where
  "simple_load st =
     (case parse_or_empty (localStorage st) of
        Inl e \<Rightarrow> Inl e
      | Inr parsed \<Rightarrow> Inr (st\<lparr>students := parsed\<rparr>))"

definition simple_updateStats ::
  "(student_simple, student_simple) component \<Rightarrow> (student_simple, student_simple) component" where
  "simple_updateStats st =
     st\<lparr>totalCount := length (filteredStudents st),
        presentCount := length (filter (\<lambda>s. attendance s = Str ''Present'') (filteredStudents st)),
        absentCount := length (filter (\<lambda>s. attendance s = Str ''Absent'') (filteredStudents st))\<rparr>"

definition simple_renderChart ::
  "(student_simple, student_simple) component \<Rightarrow> (student_simple, student_simple) component" where
  "simple_renderChart st =
     (if \<not> viewReady st then st
      else if attendanceDonut st = None then st
      else
        (let data = [\<lparr>label = ''Present'', value' = presentCount st\<rparr>,
                     \<lparr>label = ''Absent'', value' = absentCount st\<rparr>];
             total = presentCount st + absentCount st
         in st\<lparr>attendanceDonut :=
                  Some (Donut data (if total \<noteq> 0 then PercentPresent (presentCount st) total
                                    else NoData))\<rparr>))"

fun simple_select :: "Filter \<Rightarrow> student_simple list \<Rightarrow> student_simple list" where
  "simple_select FPresent ss = filter (\<lambda>s. attendance s = Str (lit_Filter FPresent)) ss"
| "simple_select FAbsent ss = filter (\<lambda>s. attendance s = Str (lit_Filter FAbsent)) ss"
| "simple_select FSchool ss = filter (\<lambda>s. type s = Str (lit_Filter FSchool)) ss"
| "simple_select FCollege ss = filter (\<lambda>s. type s = Str (lit_Filter FCollege)) ss"
| "simple_select FAll ss = ss"

definition simple_applyFilter ::
  "Filter \<Rightarrow> (student_simple, student_simple) component
     \<Rightarrow> (student_simple, student_simple) component" where
  "simple_applyFilter f st =
     simple_renderChart
       (simple_updateStats (st\<lparr>currentFilter := f, filteredStudents := simple_select f (students st)\<rparr>))"

definition simple_addStudent ::
  "env \<Rightarrow> (student_simple, student_simple) component
     \<Rightarrow> (student_simple, student_simple) component" where
  "simple_addStudent E st =
     (let nm = trim (addForm_name st)
      in if nm = [] then st
         else
           (let (t, st1) = Date_now_next E st;
                newStudent = \<lparr>id' = Num t, name = Str nm, type = Str (lit_Type (addForm_type st)),
                              attendance = Str ''Absent''\<rparr>;
                st2 = simple_save (st1\<lparr>students := students st1 @ [newStudent]\<rparr>);
                st3 = st2\<lparr>addForm_name := [], addForm_type := School\<rparr>
            in simple_applyFilter (currentFilter st3) st3))"

text \<open>
  \<^verbatim>\<open>deleteStudent\<close> is called with the \<^verbatim>\<open>id\<close> of a record of the list, so with
  whatever that field holds.
\<close>

definition simple_deleteStudent ::
  "bool \<Rightarrow> js_value \<Rightarrow> (student_simple, student_simple) component
     \<Rightarrow> (student_simple, student_simple) component" where
  "simple_deleteStudent confirmed i st =
     (if \<not> confirmed then st
      else
        (let st1 = simple_save (st\<lparr>students := filter (\<lambda>s. id' s \<noteq> i) (students st)\<rparr>)
         in simple_applyFilter (currentFilter st1) st1))"

definition simple_saveEdit ::
  "(student_simple, student_simple) component \<Rightarrow> (student_simple, student_simple) component" where
  "simple_saveEdit st =
     (case editModel st of
        None \<Rightarrow> st
      | Some m \<Rightarrow>
          (let idx = findIndex (\<lambda>s. id' s = id' m) (students st);
               st1 = (if idx > - 1
                      then (let st' = simple_save (st\<lparr>students := (students st)[nat idx := m]\<rparr>)
                            in simple_applyFilter (currentFilter st') st')
                      else st)
           in cancelEdit st1))"

definition simple_onAttendanceChange ::
  "student_simple \<Rightarrow> Att \<Rightarrow> (student_simple, student_simple) component
     \<Rightarrow> (student_simple, student_simple) component" where
  "simple_onAttendanceChange student att st =
     (let idx = findIndex (\<lambda>s. id' s = id' student) (students st)
      in if idx > - 1
         then (let st' = simple_save (st\<lparr>students :=
                                   (students st)[nat idx :=
                                      (students st ! nat idx)\<lparr>attendance := Str (lit_Att att)\<rparr>]\<rparr>)
               in simple_applyFilter (currentFilter st') st')
         else st)"

definition simple_ngOnInit ::
  "(student_simple, student_simple) component
     \<Rightarrow> js_error + (student_simple, student_simple) component" where
  "simple_ngOnInit st =
     (case simple_load st of
        Inl e \<Rightarrow> Inl e
      | Inr st1 \<Rightarrow> Inr (simple_renderChart ((simple_applyFilter FAll st1)\<lparr>viewReady := True\<rparr>)))"

text \<open>
  A student of the richer version without its \<^verbatim>\<open>uid\<close>, as the object the simple
  version holds.
\<close>

definition plain :: "student \<Rightarrow> student_simple" where
  "plain s =
     \<lparr>id' = Num (id' s), name = Str (name s), type = Str (lit_Type (type s)),
      attendance = Str (lit_Att (attendance s))\<rparr>"

section \<open>Example inputs\<close>

text \<open>
  A clock that stands at 1700000000000 ms (the loop of \<^verbatim>\<open>load\<close> runs within one
  millisecond) and a random source whose first two numbers differ but share
  their first four digits in base 36.
\<close>

definition still_clock :: env where
  "still_clock =
     \<lparr>Date_now = (\<lambda>n. 1700000000000),
      Math_random = (\<lambda>n. if n = 0 then ''0.4fzyo82mvyr'' else ''0.4fzy1k9xw2c'')\<rparr>"

text \<open>The same clock with random numbers whose first four digits all differ, up to the fourth draw.\<close>

definition varied_draws :: env where
  "varied_draws =
     \<lparr>Date_now = (\<lambda>n. 1700000000000),
      Math_random = (\<lambda>n. ''0.'' @ replicate n (CHR ''a'') @ ''bbbb'')\<rparr>"

definition alice :: student where
  "alice = \<lparr>id' = 1, name = ''Alice'', type = School, attendance = Present, uid = ''STU-AAAA0001''\<rparr>"

definition bob :: student where
  "bob = \<lparr>id' = 2, name = ''Bob'', type = College, attendance = Absent, uid = ''STU-AAAA0002''\<rparr>"

definition carol :: student where
  "carol = \<lparr>id' = 3, name = ''Carol'', type = School, attendance = Absent, uid = ''STU-AAAA0003''\<rparr>"

definition roster :: "(student, raw_student) component" where
  "roster =
     (initial (Items [toJSON alice, toJSON bob]) (Some Blank))
       \<lparr>students := [alice, bob], filteredStudents := [alice, bob],
        totalCount := 2, presentCount := 1, absentCount := 1, viewReady := True\<rparr>"

definition simple_alice :: student_simple where
  "simple_alice = \<lparr>id' = Num 1, name = Str ''Alice'', type = Str ''School'', attendance = Str ''Present''\<rparr>"

definition simple_bob :: student_simple where
  "simple_bob = \<lparr>id' = Num 2, name = Str ''Bob'', type = Str ''College'', attendance = Str ''Absent''\<rparr>"

definition simple_carol :: student_simple where
  "simple_carol = \<lparr>id' = Num 3, name = Str ''Carol'', type = Str ''School'', attendance = Str ''Absent''\<rparr>"

definition simple_roster :: "(student_simple, student_simple) component" where
  "simple_roster =
     (initial (Items [simple_alice, simple_bob]) (Some Blank))
       \<lparr>students := [simple_alice, simple_bob], filteredStudents := [simple_alice, simple_bob],
        totalCount := 2, presentCount := 1, absentCount := 1, viewReady := True\<rparr>"

text \<open>Three persisted records that share one \<^verbatim>\<open>uid\<close>.\<close>

definition shared_uid :: "raw_student list" where
  "shared_uid =
     [\<lparr>raw_id = Some 1, raw_uid = Some ''STU-1'', raw_name = Some ''Ann'',
       raw_type = Some ''School'', raw_attendance = Some ''Present''\<rparr>,
      \<lparr>raw_id = Some 2, raw_uid = Some ''STU-1'', raw_name = Some ''Ben'',
       raw_type = Some ''School'', raw_attendance = Some ''Present''\<rparr>,
      \<lparr>raw_id = Some 3, raw_uid = Some ''STU-1'', raw_name = Some ''Cy'',
       raw_type = Some ''College'', raw_attendance = Some ''Absent''\<rparr>]"


section \<open>Properties\<close>

subsection \<open>The identifier generator\<close>

lemma clamp_index_neg: "0 < k \<Longrightarrow> clamp_index len (- int k) = len - k"
  by (auto simp add: clamp_index_def max_def)

lemma partA_drop: "partA t = (let u = toUpperCase (toString36 t) in drop (length u - 4) u)"
proof -
  have "clamp_index len (- 4) = len - 4" for len
    using clamp_index_neg [of 4 len] by simp
  then show ?thesis
    by (simp add: partA_def slice_from_def slice_def Let_def) (simp add: clamp_index_def)
qed

lemma partB_take: "partB r = take 4 (drop 2 (toUpperCase r))"
  by (auto simp add: partB_def slice_def clamp_index_def Let_def min_def)

lemma length_partA: "length (partA t) \<le> 4"
  by (simp add: partA_drop Let_def)

lemma length_partB: "length (partB r) \<le> 4"
  by (simp add: partB_take)

lemma toString36_nat_nonempty: "toString36_nat n \<noteq> []"
  by (subst toString36_nat.simps) simp

lemma toString36_nat_length: "36 ^ k \<le> n \<Longrightarrow> k < length (toString36_nat n)"
proof (induction k arbitrary: n)
  case 0
  then show ?case using toString36_nat_nonempty [of n] by (cases "toString36_nat n") auto
next
  case (Suc k)
  have "36 ^ k \<le> n div 36" using Suc.prems
    by (simp add: less_eq_div_iff_mult_less_eq mult.commute)
  from Suc.IH [OF this] have "k < length (toString36_nat (n div 36))" .
  moreover have "(1::nat) \<le> 36 ^ k" by simp
  then have "(36::nat) * 1 \<le> 36 * 36 ^ k" by (rule mult_le_mono2)
  then have "36 \<le> n" using Suc.prems by (simp only: power_Suc mult_1_right le_trans)
  then have "\<not> n < 36" by simp
  ultimately show ?case by (subst toString36_nat.simps) simp
qed

lemma digit36_lower: "d < 36 \<Longrightarrow> base36_lower (digit36 d)"
  unfolding digit36_def base36_lower_def by (rule nth_mem) simp

lemma toString36_nat_chars: "c \<in> set (toString36_nat n) \<Longrightarrow> base36_lower c"
proof (induction n arbitrary: c rule: toString36_nat.induct)
  case (1 n)
  show ?case
  proof (cases "n < 36")
    case True
    with "1.prems" show ?thesis by (subst (asm) toString36_nat.simps) (simp add: digit36_lower)
  next
    case False
    with "1.prems" have "c \<in> set (toString36_nat (n div 36)) \<or> c = digit36 (n mod 36)"
      by (subst (asm) toString36_nat.simps) auto
    then show ?thesis using "1.IH" [OF False] by (auto simp: digit36_lower)
  qed
qed

lemma upper_of_lower: "base36_lower c \<Longrightarrow> base36_upper (upper_char c)"
  unfolding base36_lower_def base36_upper_def upper_char_def by auto

lemma partA_length4: assumes "46656 \<le> t" shows "length (partA t) = 4"
proof -
  have "(36::nat) ^ 3 \<le> nat t" using assms by simp
  from toString36_nat_length [OF this] have "3 < length (toString36_nat (nat t))" .
  then show ?thesis using assms by (simp add: partA_drop Let_def toUpperCase_def toString36_def)
qed

lemma partB_length4: "6 \<le> length r \<Longrightarrow> length (partB r) = 4"
  by (simp add: partB_take toUpperCase_def)

lemma partA_chars: assumes "0 \<le> t" "c \<in> set (partA t)" shows "base36_upper c"
proof -
  from assms(2) have "c \<in> set (toUpperCase (toString36 t))"
    by (auto simp: partA_drop Let_def dest: in_set_dropD)
  then obtain d where "d \<in> set (toString36_nat (nat t))" "c = upper_char d"
    using assms(1) by (auto simp: toUpperCase_def toString36_def)
  then show ?thesis using toString36_nat_chars upper_of_lower by blast
qed

lemma partB_chars: assumes "\<forall>d\<in>set (drop 2 r). base36_lower d" "c \<in> set (partB r)" shows "base36_upper c"
proof -
  from assms(2) have "c \<in> set (map upper_char (drop 2 r))"
    by (auto simp: partB_take toUpperCase_def drop_map dest: in_set_takeD)
  then show ?thesis using assms(1) upper_of_lower by auto
qed

lemma last_toString36_nat: "last (toString36_nat n) = digit36 (n mod 36)"
  by (subst toString36_nat.simps) simp

lemma partA_digits:
  assumes "46656 \<le> t"
  shows "partA t = map (\<lambda>k. upper_char (digit36 ((nat t div 36 ^ k) mod 36))) [3, 2, 1, 0]"
proof -
  define n where "n = nat t"
  have n: "46656 \<le> n" using assms by (simp add: n_def)
  define h where "h = toString36_nat (n div 46656)"
  have h: "h \<noteq> []" by (simp add: h_def toString36_nat_nonempty)
  have 1: "toString36_nat n = toString36_nat (n div 36) @ [digit36 (n mod 36)]"
    using n by (subst toString36_nat.simps) simp
  have 2: "toString36_nat (n div 36) = toString36_nat (n div 1296) @ [digit36 (n div 36 mod 36)]"
    using n by (subst toString36_nat.simps) (simp add: div_mult2_eq [symmetric])
  have 3: "toString36_nat (n div 1296) = h @ [digit36 (n div 1296 mod 36)]"
    using n unfolding h_def by (subst toString36_nat.simps) (simp add: div_mult2_eq [symmetric])
  have "toString36_nat n = butlast h @ [last h, digit36 (n div 1296 mod 36), digit36 (n div 36 mod 36), digit36 (n mod 36)]"
    using h by (simp add: 1 2 3)
  moreover have "last h = digit36 (n div 46656 mod 36)" by (simp add: h_def last_toString36_nat)
  ultimately have "toString36_nat n = butlast h @ map (\<lambda>k. digit36 ((n div 36 ^ k) mod 36)) [3, 2, 1, 0]"
    by simp
  then show ?thesis using assms
    by (simp add: partA_drop Let_def toUpperCase_def toString36_def n_def [symmetric])
qed

lemma toString36_still: "toString36 1700000000000 = ''loyw3v28''"
  by (simp add: toString36_def toString36_nat.simps digit36_def)

lemma toString36_early: "toString36 1000 = ''rs''"
  by (simp add: toString36_def toString36_nat.simps digit36_def)

lemma partA_still: "partA 1700000000000 = ''3V28''"
  by (simp add: partA_drop toString36_still toUpperCase_def upper_char_def)

lemma partA_early: "partA 1000 = ''RS''"
  by (simp add: partA_drop toString36_early toUpperCase_def upper_char_def)

lemma partB_first: "partB ''0.4fzyo82mvyr'' = ''4FZY''"
  by (simp add: partB_take toUpperCase_def upper_char_def)

lemma partB_second: "partB ''0.4fzy1k9xw2c'' = ''4FZY''"
  by (simp add: partB_take toUpperCase_def upper_char_def)

lemma partB_half: "partB ''0.i'' = ''I''"
  by (simp add: partB_take toUpperCase_def upper_char_def)

text \<open>
  C8 (amended). The identifier returned by \<^verbatim>\<open>makeUID\<close>, when the clock shows
  \<open>t\<close> and the random number renders as \<open>r\<close>, is \<^verbatim>\<open>STU-\<close> followed by \<open>A\<close> and
  \<open>B\<close>: \<open>A\<close> is the rightmost four characters (all of them when there are
  fewer) of \<open>t\<close> in upper-case base 36, and \<open>B\<close> is what stands at the
  positions 2 to 5 of the upper-cased rendering \<open>r\<close> (fewer than four characters
  when the rendering is short). The identifier has at most 12 characters, and
  exactly 12 when \<open>t\<close> is at least \<open>36 ^ 3 = 46656\<close> and \<open>r\<close> has at least six
  characters; then \<open>A\<close> is the four lowest digits of \<open>t\<close>. \<open>A\<close> consists of
  upper-case base-36 digits when \<open>t\<close> is not negative, and so does \<open>B\<close> when the
  rendering has base-36 digits from its position 2 on.
\<close>

theorem makeUID_shape:
  "(let t = Date_now E (ticks st); r = Math_random E (draws st); u = fst (makeUID E st);
        A = partA t; B = partB r
    in u = ''STU-'' @ A @ B
       \<and> A = drop (length (toString36 t) - 4) (toUpperCase (toString36 t))
       \<and> B = take 4 (drop 2 (toUpperCase r))
       \<and> length u \<le> 12
       \<and> (46656 \<le> t \<and> 6 \<le> length r \<longrightarrow>
            length u = 12
            \<and> A = map (\<lambda>k. upper_char (digit36 ((nat t div 36 ^ k) mod 36))) [3, 2, 1, 0])
       \<and> (0 \<le> t \<longrightarrow> (\<forall>c\<in>set A. base36_upper c))
       \<and> ((\<forall>d\<in>set (drop 2 r). base36_lower d) \<longrightarrow> (\<forall>c\<in>set B. base36_upper c)))"
proof -
  define t where "t = Date_now E (ticks st)"
  define r where "r = Math_random E (draws st)"
  have u: "fst (makeUID E st) = ''STU-'' @ partA t @ partB r"
    by (simp add: makeUID_def Date_now_next_def Math_random_next_def makeUID_at_def t_def r_def)
  have A: "partA t = drop (length (toString36 t) - 4) (toUpperCase (toString36 t))"
    by (simp add: partA_drop Let_def toUpperCase_def)
  have len: "length (fst (makeUID E st)) \<le> 12"
    using length_partA [of t] length_partB [of r] by (simp add: u)
  have full: "length (fst (makeUID E st)) = 12" if "46656 \<le> t" "6 \<le> length r"
    using partA_length4 [OF that(1)] partB_length4 [OF that(2)] by (simp add: u)
  have digits: "partA t = map (\<lambda>k. upper_char (digit36 ((nat t div 36 ^ k) mod 36))) [3, 2, 1, 0]"
    if "46656 \<le> t"
    using partA_digits [OF that] .
  have Achars: "\<forall>c\<in>set (partA t). base36_upper c" if "0 \<le> t"
    using partA_chars [OF that] by blast
  have Bchars: "\<forall>c\<in>set (partB r). base36_upper c" if "\<forall>d\<in>set (drop 2 r). base36_lower d"
    using partB_chars [OF that] by blast
  show ?thesis
    unfolding Let_def t_def [symmetric] r_def [symmetric]
  proof (intro conjI impI)
    show "fst (makeUID E st) = ''STU-'' @ partA t @ partB r" by (rule u)
    show "partA t = drop (length (toString36 t) - 4) (toUpperCase (toString36 t))" by (rule A)
    show "partB r = take 4 (drop 2 (toUpperCase r))" by (rule partB_take)
    show "length (fst (makeUID E st)) \<le> 12" by (rule len)
    show "length (fst (makeUID E st)) = 12" if "46656 \<le> t \<and> 6 \<le> length r"
      using that full by blast
    show "partA t = map (\<lambda>k. upper_char (digit36 ((nat t div 36 ^ k) mod 36))) [3, 2, 1, 0]"
      if "46656 \<le> t \<and> 6 \<le> length r"
      using that digits by blast
    show "\<forall>c\<in>set (partA t). base36_upper c" if "0 \<le> t"
      using that by (rule Achars)
    show "\<forall>c\<in>set (partB r). base36_upper c" if "\<forall>d\<in>set (drop 2 r). base36_lower d"
      using that by (rule Bchars)
  qed
qed

theorem makeUID_shape_witness:
  "fst (makeUID still_clock (initial NoItem None :: (student, raw_student) component)) = ''STU-3V284FZY''
   \<and> length (fst (makeUID still_clock (initial NoItem None :: (student, raw_student) component))) = 12"
proof -
  let ?st = "initial NoItem None :: (student, raw_student) component"
  have t: "Date_now still_clock (ticks ?st) = 1700000000000"
    by (simp add: still_clock_def)
  have r: "Math_random still_clock (draws ?st) = ''0.4fzyo82mvyr''"
    by (simp add: still_clock_def initial_def)
  have "fst (makeUID still_clock ?st) = ''STU-'' @ partA 1700000000000 @ partB ''0.4fzyo82mvyr''"
    using makeUID_shape [of still_clock ?st] unfolding Let_def t r by (rule conjunct1)
  then have "fst (makeUID still_clock ?st) = ''STU-3V284FZY''"
    unfolding partA_still partB_first by simp
  then show ?thesis by simp
qed

theorem makeUID_short_counterexample:
  "makeUID_at 1700000000000 ''0.i'' = ''STU-3V28I''
   \<and> length (makeUID_at 1700000000000 ''0.i'') = 9
   \<and> makeUID_at 1000 ''0.4fzyo82mvyr'' = ''STU-RS4FZY''
   \<and> length (makeUID_at 1000 ''0.4fzyo82mvyr'') = 10"
  unfolding makeUID_at_def partA_still partA_early partB_half partB_first by simp

subsection \<open>Lookup by identifier\<close>

lemma findIndexFrom_none: "(\<forall>x\<in>set xs. \<not> P x) \<Longrightarrow> findIndexFrom P i xs = - 1"
  by (induction xs arbitrary: i) auto

lemma findIndex_none: "(\<forall>x\<in>set xs. \<not> P x) \<Longrightarrow> findIndex P xs = - 1"
  by (simp add: findIndex_def findIndexFrom_none)

lemma findIndexFrom_some:
  "\<exists>x\<in>set xs. P x \<Longrightarrow> int i \<le> findIndexFrom P i xs \<and> findIndexFrom P i xs < int (i + length xs)"
proof (induction xs arbitrary: i)
  case Nil
  then show ?case by simp
next
  case (Cons x xs)
  show ?case
  proof (cases "P x")
    case True
    then show ?thesis by simp
  next
    case False
    with Cons.prems have "\<exists>x\<in>set xs. P x" by simp
    from Cons.IH [OF this, of "Suc i"] False show ?thesis by simp
  qed
qed

subsection \<open>Statistics\<close>

lemma lit_Att_Present: "(lit_Att a = ''Present'') = (a = Present)"
  by (cases a) simp_all

lemma lit_Att_Absent: "(lit_Att a = ''Absent'') = (a = Absent)"
  by (cases a) simp_all

lemma present_absent_partition:
  "length (filter (\<lambda>s. attendance s = Present) ss) + length (filter (\<lambda>s. attendance s = Absent) ss)
     = length ss"
proof (induction ss)
  case Nil
  show ?case by simp
next
  case (Cons s ss)
  then show ?case by (cases "attendance s") simp_all
qed

lemma renderChart_counts [simp]:
  "totalCount (renderChart st) = totalCount st"
  "presentCount (renderChart st) = presentCount st"
  "absentCount (renderChart st) = absentCount st"
  "filteredStudents (renderChart st) = filteredStudents st"
  "students (renderChart st) = students st"
  "localStorage (renderChart st) = localStorage st"
  by (simp_all add: renderChart_def Let_def)

lemma simple_renderChart_counts [simp]:
  "totalCount (simple_renderChart st) = totalCount st"
  "presentCount (simple_renderChart st) = presentCount st"
  "absentCount (simple_renderChart st) = absentCount st"
  "filteredStudents (simple_renderChart st) = filteredStudents st"
  "students (simple_renderChart st) = students st"
  "localStorage (simple_renderChart st) = localStorage st"
  by (simp_all add: simple_renderChart_def Let_def)

text \<open>
  In the richer version the three counts are as said and the two add up to the
  total, after \<^verbatim>\<open>updateStats\<close> and after \<^verbatim>\<open>applyFilter\<close>: every student of
  its list has an \<^verbatim>\<open>attendance\<close> that \<^verbatim>\<open>load\<close> or \<^verbatim>\<open>addStudent\<close> has set to
  Present or Absent.
\<close>

lemma updateStats_counts:
  "totalCount (updateStats st) = length (filteredStudents st)
   \<and> presentCount (updateStats st) = length (filter (\<lambda>s. attendance s = Present) (filteredStudents st))
   \<and> absentCount (updateStats st) = length (filter (\<lambda>s. attendance s = Absent) (filteredStudents st))
   \<and> presentCount (updateStats st) + absentCount (updateStats st) = totalCount (updateStats st)
   \<and> filteredStudents (applyFilter f r) = select f (students r)
   \<and> totalCount (applyFilter f r) = length (select f (students r))
   \<and> presentCount (applyFilter f r) = length (filter (\<lambda>s. attendance s = Present) (select f (students r)))
   \<and> absentCount (applyFilter f r) = length (filter (\<lambda>s. attendance s = Absent) (select f (students r)))
   \<and> presentCount (applyFilter f r) + absentCount (applyFilter f r) = totalCount (applyFilter f r)"
  by (simp add: updateStats_def applyFilter_def lit_Att_Present lit_Att_Absent
      present_absent_partition)

text \<open>
  In the simple version the counts are the same three numbers, read off
  whatever the \<^verbatim>\<open>attendance\<close> fields hold: the two never exceed the total
  together, and they add up to it exactly when every record of the filtered
  list has \<^verbatim>\<open>'Present'\<close> or \<^verbatim>\<open>'Absent'\<close> there.
\<close>

lemma simple_present_absent:
  "length (filter (\<lambda>s. attendance s = Str ''Present'') ss)
     + length (filter (\<lambda>s. attendance s = Str ''Absent'') ss)
     + length (filter (\<lambda>s. attendance s \<noteq> Str ''Present'' \<and> attendance s \<noteq> Str ''Absent'') ss)
     = length (ss :: student_simple list)"
  by (induction ss) auto

lemma simple_updateStats_counts:
  "totalCount (simple_updateStats st) = length (filteredStudents st)
   \<and> presentCount (simple_updateStats st)
       = length (filter (\<lambda>s. attendance s = Str ''Present'') (filteredStudents st))
   \<and> absentCount (simple_updateStats st)
       = length (filter (\<lambda>s. attendance s = Str ''Absent'') (filteredStudents st))
   \<and> presentCount (simple_updateStats st) + absentCount (simple_updateStats st)
       \<le> totalCount (simple_updateStats st)
   \<and> ((presentCount (simple_updateStats st) + absentCount (simple_updateStats st)
         = totalCount (simple_updateStats st))
       = (\<forall>s\<in>set (filteredStudents st). attendance s = Str ''Present'' \<or> attendance s = Str ''Absent''))"
proof -
  let ?other = "filter (\<lambda>s. attendance s \<noteq> Str ''Present'' \<and> attendance s \<noteq> Str ''Absent'')
                  (filteredStudents st)"
  have "(length ?other = 0)
        = (\<forall>s\<in>set (filteredStudents st). attendance s = Str ''Present'' \<or> attendance s = Str ''Absent'')"
    by (auto simp add: filter_empty_conv)
  then show ?thesis
    using simple_present_absent [of "filteredStudents st"]
    by (auto simp add: simple_updateStats_def)
qed

lemma simple_applyFilter_counts:
  "filteredStudents (simple_applyFilter f q) = simple_select f (students q)
   \<and> totalCount (simple_applyFilter f q) = length (simple_select f (students q))
   \<and> presentCount (simple_applyFilter f q)
       = length (filter (\<lambda>s. attendance s = Str ''Present'') (simple_select f (students q)))
   \<and> absentCount (simple_applyFilter f q)
       = length (filter (\<lambda>s. attendance s = Str ''Absent'') (simple_select f (students q)))"
  by (simp add: simple_applyFilter_def simple_updateStats_def)


text \<open>
  The richer version brings the same stored records into range: the first and
  the third become Present, and the counts add up.
\<close>

lemma counts_late_richer:
  "(case ngOnInit still_clock
           (initial (Items [\<lparr>raw_id = Some 1, raw_uid = Some ''STU-1'', raw_name = Some ''Ann'',
                              raw_type = Some ''School'', raw_attendance = Some ''Late''\<rparr>,
                            \<lparr>raw_id = Some 2, raw_uid = Some ''STU-2'', raw_name = Some ''Ben'',
                              raw_type = Some ''School'', raw_attendance = Some ''Absent''\<rparr>,
                            \<lparr>raw_id = Some 3, raw_uid = Some ''STU-3'', raw_name = Some ''Cy'',
                              raw_type = Some ''College'', raw_attendance = None\<rparr>]) (Some Blank)) of
      Inl e \<Rightarrow> None
    | Inr st \<Rightarrow> Some (map attendance (students st), totalCount st, presentCount st, absentCount st))
   = Some ([Present, Absent, Present], 3, 2, 1)"
  by (simp add: ngOnInit_def load_def migrate_one_def save_def applyFilter_def updateStats_def
      initial_def)

subsection \<open>Stale identifiers\<close>

text \<open>
  C6. When no record of the canonical list has the identifier of the given
  student, \<^verbatim>\<open>onAttendanceChange\<close> returns the component as it was, in both
  versions: the list, the storage slot, the filtered view and everything else
  are unchanged.
\<close>

theorem onAttendanceChange_stale_noop:
  "((\<forall>s\<in>set (students st). id' s \<noteq> id' x) \<longrightarrow> onAttendanceChange x att st = st)
   \<and> ((\<forall>s\<in>set (students q). id' s \<noteq> id' y) \<longrightarrow> simple_onAttendanceChange y att q = q)"
proof (intro conjI impI)
  assume "\<forall>s\<in>set (students st). id' s \<noteq> id' x"
  then have "findIndex (\<lambda>s. id' s = id' x) (students st) = - 1"
    by (intro findIndex_none) simp
  then show "onAttendanceChange x att st = st"
    by (simp add: onAttendanceChange_def)
next
  assume "\<forall>s\<in>set (students q). id' s \<noteq> id' y"
  then have "findIndex (\<lambda>s. id' s = id' y) (students q) = - 1"
    by (intro findIndex_none) simp
  then show "simple_onAttendanceChange y att q = q"
    by (simp add: simple_onAttendanceChange_def)
qed

theorem onAttendanceChange_stale_noop_witness:
  "onAttendanceChange carol Present roster = roster
   \<and> simple_onAttendanceChange simple_carol Present simple_roster = simple_roster"
proof -
  have "\<forall>s\<in>set (students roster). id' s \<noteq> id' carol"
    by (simp add: roster_def alice_def bob_def carol_def)
  moreover have "\<forall>s\<in>set (students simple_roster). id' s \<noteq> id' simple_carol"
    by (simp add: simple_roster_def simple_alice_def simple_bob_def simple_carol_def)
  ultimately show ?thesis
    using onAttendanceChange_stale_noop [of roster carol Present simple_roster simple_carol]
    by blast
qed

subsection \<open>Deleting\<close>

lemma applyFilter_students [simp]:
  "students (applyFilter f st) = students st"
  "localStorage (applyFilter f st) = localStorage st"
  by (simp_all add: applyFilter_def updateStats_def)

lemma simple_applyFilter_students [simp]:
  "students (simple_applyFilter f st) = students st"
  "localStorage (simple_applyFilter f st) = localStorage st"
  by (simp_all add: simple_applyFilter_def simple_updateStats_def)

text \<open>
  C9. Once confirmed, \<^verbatim>\<open>deleteStudent\<close> leaves in the canonical list exactly the
  records whose identifier differs from the given one, in their former order:
  no record with that identifier remains (not only the first is removed), the
  new list is a subsequence of the old one, and the records with another
  identifier are all there as before. The same holds of the simple version.
\<close>

theorem deleteStudent_removes_all:
  "(let after = students (deleteStudent True i st)
    in after = filter (\<lambda>s. id' s \<noteq> i) (students st)
       \<and> (\<forall>s\<in>set after. id' s \<noteq> i)
       \<and> subseq after (students st)
       \<and> (\<forall>s\<in>set (students st). id' s \<noteq> i \<longrightarrow> count_list after s = count_list (students st) s))
   \<and> (let after = students (simple_deleteStudent True j q)
       in after = filter (\<lambda>s. id' s \<noteq> j) (students q)
          \<and> (\<forall>s\<in>set after. id' s \<noteq> j)
          \<and> subseq after (students q)
          \<and> (\<forall>s\<in>set (students q). id' s \<noteq> j \<longrightarrow> count_list after s = count_list (students q) s))"
proof -
  have kept: "count_list (filter P xs) x = count_list xs x" if "P x" for P and xs :: "'a list" and x
    using that by (induction xs) auto
  have 1: "students (deleteStudent True i st) = filter (\<lambda>s. id' s \<noteq> i) (students st)"
    by (simp add: deleteStudent_def Let_def save_def)
  have 2: "students (simple_deleteStudent True j q) = filter (\<lambda>s. id' s \<noteq> j) (students q)"
    by (simp add: simple_deleteStudent_def Let_def simple_save_def)
  show ?thesis
    unfolding Let_def 1 2 by (simp add: kept)
qed

theorem deleteStudent_removes_all_witness:
  "students (deleteStudent True 1 (roster\<lparr>students := [alice, bob, alice, carol]\<rparr>)) = [bob, carol]"
proof -
  let ?st = "roster\<lparr>students := [alice, bob, alice, carol]\<rparr>"
  have "students (deleteStudent True 1 ?st) = filter (\<lambda>s. id' s \<noteq> 1) (students ?st)"
    using deleteStudent_removes_all [of 1 ?st "Num 1" simple_roster] unfolding Let_def by (rule conjunct1 [OF conjunct1])
  then show ?thesis by (simp add: alice_def bob_def carol_def)
qed

subsection \<open>Committing an edit that has lost its record\<close>

text \<open>
  C10. When \<^verbatim>\<open>saveEdit\<close> runs with a working copy whose identifier no record of
  the canonical list has, it does what \<^verbatim>\<open>cancelEdit\<close> does and nothing else:
  the list, the storage slot and the filtered view stay as they were,
  \<^verbatim>\<open>modalClosing\<close> is set and the closing callback is queued behind the timers
  already waiting; when that callback runs, the working copy is discarded and
  the modal is closed. The same holds of the simple version.
\<close>

theorem saveEdit_stale_closes:
  "(editModel st = Some m \<and> (\<forall>s\<in>set (students st). id' s \<noteq> id' m) \<longrightarrow>
      (let after = saveEdit st; closed = run_callback CloseModal after
       in after = cancelEdit st
          \<and> students after = students st
          \<and> localStorage after = localStorage st
          \<and> filteredStudents after = filteredStudents st
          \<and> modalClosing after
          \<and> timers after = timers st @ [(250, CloseModal)]
          \<and> editModel closed = None \<and> \<not> showEditModal closed \<and> \<not> modalClosing closed
          \<and> students closed = students st \<and> localStorage closed = localStorage st
          \<and> (timers st = [] \<longrightarrow> timer_fires after = closed\<lparr>timers := []\<rparr>)))
   \<and> (editModel q = Some n \<and> (\<forall>s\<in>set (students q). id' s \<noteq> id' n) \<longrightarrow>
      (let after = simple_saveEdit q; closed = run_callback CloseModal after
       in after = cancelEdit q
          \<and> students after = students q
          \<and> localStorage after = localStorage q
          \<and> filteredStudents after = filteredStudents q
          \<and> modalClosing after
          \<and> timers after = timers q @ [(250, CloseModal)]
          \<and> editModel closed = None \<and> \<not> showEditModal closed \<and> \<not> modalClosing closed
          \<and> students closed = students q \<and> localStorage closed = localStorage q
          \<and> (timers q = [] \<longrightarrow> timer_fires after = closed\<lparr>timers := []\<rparr>)))"
proof (intro conjI impI)
  assume a: "editModel st = Some m \<and> (\<forall>s\<in>set (students st). id' s \<noteq> id' m)"
  then have "findIndex (\<lambda>s. id' s = id' m) (students st) = - 1"
    by (intro findIndex_none) simp
  then have "saveEdit st = cancelEdit st"
    using a by (simp add: saveEdit_def)
  then show "let after = saveEdit st; closed = run_callback CloseModal after
       in after = cancelEdit st
          \<and> students after = students st
          \<and> localStorage after = localStorage st
          \<and> filteredStudents after = filteredStudents st
          \<and> modalClosing after
          \<and> timers after = timers st @ [(250, CloseModal)]
          \<and> editModel closed = None \<and> \<not> showEditModal closed \<and> \<not> modalClosing closed
          \<and> students closed = students st \<and> localStorage closed = localStorage st
          \<and> (timers st = [] \<longrightarrow> timer_fires after = closed\<lparr>timers := []\<rparr>)"
    by (simp add: Let_def cancelEdit_def timer_fires_def)
next
  assume a: "editModel q = Some n \<and> (\<forall>s\<in>set (students q). id' s \<noteq> id' n)"
  then have "findIndex (\<lambda>s. id' s = id' n) (students q) = - 1"
    by (intro findIndex_none) simp
  then have "simple_saveEdit q = cancelEdit q"
    using a by (simp add: simple_saveEdit_def)
  then show "let after = simple_saveEdit q; closed = run_callback CloseModal after
       in after = cancelEdit q
          \<and> students after = students q
          \<and> localStorage after = localStorage q
          \<and> filteredStudents after = filteredStudents q
          \<and> modalClosing after
          \<and> timers after = timers q @ [(250, CloseModal)]
          \<and> editModel closed = None \<and> \<not> showEditModal closed \<and> \<not> modalClosing closed
          \<and> students closed = students q \<and> localStorage closed = localStorage q
          \<and> (timers q = [] \<longrightarrow> timer_fires after = closed\<lparr>timers := []\<rparr>)"
    by (simp add: Let_def cancelEdit_def timer_fires_def)
qed

theorem saveEdit_stale_closes_witness:
  "students (saveEdit (openEdit carol roster)) = [alice, bob]
   \<and> localStorage (saveEdit (openEdit carol roster)) = Items [toJSON alice, toJSON bob]
   \<and> modalClosing (saveEdit (openEdit carol roster))
   \<and> timers (saveEdit (openEdit carol roster)) = [(250, CloseModal)]
   \<and> editModel (timer_fires (saveEdit (openEdit carol roster))) = None"
proof -
  let ?st = "openEdit carol roster"
  have e: "editModel ?st = Some carol \<and> (\<forall>s\<in>set (students ?st). id' s \<noteq> id' carol)"
    by (simp add: openEdit_def roster_def alice_def bob_def carol_def)
  have t: "timers ?st = []"
    by (simp add: openEdit_def roster_def initial_def)
  have "students (saveEdit ?st) = students ?st
      \<and> localStorage (saveEdit ?st) = localStorage ?st
      \<and> modalClosing (saveEdit ?st)
      \<and> timers (saveEdit ?st) = timers ?st @ [(250, CloseModal)]
      \<and> timer_fires (saveEdit ?st) = (run_callback CloseModal (saveEdit ?st))\<lparr>timers := []\<rparr>
      \<and> editModel (run_callback CloseModal (saveEdit ?st)) = None"
    using saveEdit_stale_closes [of ?st carol simple_roster simple_carol] e t
    unfolding Let_def by blast
  then show ?thesis
    by (simp add: openEdit_def roster_def initial_def)
qed

subsection \<open>Loading what was saved\<close>

lemma migrate_one_toJSON: "migrate_one E (toJSON s) st = (s, st)"
  by (cases "type s"; cases "attendance s") (simp_all add: migrate_one_def toJSON_def)

lemma migrate_toJSON: "migrate E (map toJSON ss) st = (ss, st)"
  by (induction ss) (simp_all add: migrate_one_toJSON)

lemma ensureUnique_distinct:
  "distinct (map uid ss) \<Longrightarrow> set (map uid ss) \<inter> seen = {} \<Longrightarrow> ensureUnique E seen ss st = (ss, st)"
proof (induction ss arbitrary: seen)
  case Nil
  show ?case by simp
next
  case (Cons s ss)
  from Cons.prems have fresh: "uid s \<notin> seen" by auto
  from Cons.prems have "distinct (map uid ss)" "set (map uid ss) \<inter> insert (uid s) seen = {}"
    by auto
  from Cons.IH [OF this] fresh show ?case by simp
qed

text \<open>
  C2. Let the students of a component have pairwise distinct \<^verbatim>\<open>uid\<close>s (a
  student has every field, and its \<^verbatim>\<open>type\<close> and \<^verbatim>\<open>attendance\<close> are in range).
  From the slot as \<^verbatim>\<open>save\<close> writes it, \<^verbatim>\<open>load\<close> succeeds and yields exactly that
  list, whatever list the loading component held before; it reads neither the
  clock nor the random source and leaves the slot as it was. In particular
  \<^verbatim>\<open>load\<close> right after \<^verbatim>\<open>save\<close> changes nothing.
\<close>

theorem load_save_roundtrip:
  "localStorage st0 = localStorage (save st) \<and> distinct (map uid (students st)) \<longrightarrow>
     load E st0 = Inr (st0\<lparr>students := students st\<rparr>)
     \<and> load E (save st) = Inr (save st) \<and> students (save st) = students st"
proof
  assume a: "localStorage st0 = localStorage (save st) \<and> distinct (map uid (students st))"
  have from_slot: "load E c = Inr (c\<lparr>students := students st\<rparr>)"
    if c: "localStorage c = Items (map toJSON (students st))" for c
  proof -
    have p: "parse_or_empty (localStorage c) = Inr (map toJSON (students st))"
      by (simp add: c)
    have m: "migrate E (map toJSON (students st)) c = (students st, c)"
      by (rule migrate_toJSON)
    have u: "ensureUnique E {} (students st) (c\<lparr>students := students st\<rparr>)
             = (students st, c\<lparr>students := students st\<rparr>)"
      using a by (intro ensureUnique_distinct) simp_all
    have "load E c = Inr (save (c\<lparr>students := students st\<rparr>))"
      unfolding load_def p by (simp add: m u)
    moreover have "save (c\<lparr>students := students st\<rparr>) = c\<lparr>students := students st\<rparr>"
      by (simp add: save_def c [symmetric])
    ultimately show ?thesis by simp
  qed
  have "load E st0 = Inr (st0\<lparr>students := students st\<rparr>)"
    using a by (intro from_slot) (simp add: save_def)
  moreover have "load E (save st) = Inr ((save st)\<lparr>students := students st\<rparr>)"
    by (intro from_slot) (simp add: save_def)
  moreover have "(save st)\<lparr>students := students st\<rparr> = save st"
    by (simp add: save_def)
  ultimately show "load E st0 = Inr (st0\<lparr>students := students st\<rparr>)
     \<and> load E (save st) = Inr (save st) \<and> students (save st) = students st"
    by (simp add: save_def)
qed

theorem load_save_roundtrip_witness:
  "students (initial (localStorage (save roster)) None :: (student, raw_student) component) = []
   \<and> localStorage (save roster) = Items [toJSON alice, toJSON bob]
   \<and> load still_clock (initial (localStorage (save roster)) None)
       = Inr ((initial (localStorage (save roster)) None)\<lparr>students := [alice, bob]\<rparr>)"
proof -
  let ?st0 = "initial (localStorage (save roster)) None :: (student, raw_student) component"
  have "localStorage ?st0 = localStorage (save roster) \<and> distinct (map uid (students roster))"
    by (simp add: initial_def roster_def alice_def bob_def)
  then have "load still_clock ?st0 = Inr (?st0\<lparr>students := students roster\<rparr>)"
    using load_save_roundtrip [of ?st0 roster still_clock] by blast
  then show ?thesis by (simp add: roster_def initial_def save_def)
qed

subsection \<open>Malformed storage\<close>

text \<open>
  C3 (amended). When the slot holds no item or the empty string, \<^verbatim>\<open>load\<close>
  yields the empty list (and the richer version saves it). When the slot holds
  text that \<^verbatim>\<open>JSON.parse\<close> rejects, \<^verbatim>\<open>load\<close> does not treat it as empty: in both
  versions the \<^verbatim>\<open>SyntaxError\<close> leaves \<^verbatim>\<open>load\<close>, nothing is assigned or saved, and
  \<^verbatim>\<open>ngOnInit\<close> fails with it.
\<close>

theorem load_malformed_propagates:
  "(localStorage st = BadText \<longrightarrow> load E st = Inl SyntaxError \<and> ngOnInit E st = Inl SyntaxError)
   \<and> (localStorage q = BadText \<longrightarrow> simple_load q = Inl SyntaxError \<and> simple_ngOnInit q = Inl SyntaxError)
   \<and> (localStorage st = NoItem \<or> localStorage st = EmptyText \<longrightarrow>
        load E st = Inr (st\<lparr>students := [], localStorage := Items []\<rparr>))
   \<and> (localStorage q = NoItem \<or> localStorage q = EmptyText \<longrightarrow>
        simple_load q = Inr (q\<lparr>students := []\<rparr>))"
  by (auto simp add: load_def ngOnInit_def simple_load_def simple_ngOnInit_def save_def)

theorem load_malformed_propagates_witness:
  "ngOnInit still_clock (roster\<lparr>localStorage := BadText\<rparr>) = Inl SyntaxError
   \<and> simple_ngOnInit (simple_roster\<lparr>localStorage := BadText\<rparr>) = Inl SyntaxError
   \<and> load still_clock (roster\<lparr>localStorage := NoItem\<rparr>)
       = Inr (roster\<lparr>students := [], localStorage := Items []\<rparr>)"
  using load_malformed_propagates [of "roster\<lparr>localStorage := BadText\<rparr>" still_clock
      "simple_roster\<lparr>localStorage := BadText\<rparr>"]
    load_malformed_propagates [of "roster\<lparr>localStorage := NoItem\<rparr>" still_clock simple_roster]
  by simp

theorem load_malformed_counterexample:
  "load still_clock (initial BadText None) = Inl SyntaxError
   \<and> simple_load (initial BadText None) = Inl SyntaxError
   \<and> load still_clock (initial BadText None) \<noteq> load still_clock (initial NoItem None)"
  by (simp add: load_def simple_load_def initial_def)

subsection \<open>Identifiers after loading\<close>

lemma makeUID_at_first: "makeUID_at 1700000000000 ''0.4fzyo82mvyr'' = ''STU-3V284FZY''"
  by (simp add: makeUID_at_def partA_still partB_first)

lemma makeUID_at_second: "makeUID_at 1700000000000 ''0.4fzy1k9xw2c'' = ''STU-3V284FZY''"
  by (simp add: makeUID_at_def partA_still partB_second)

lemma makeUID_still_clock:
  "makeUID still_clock st =
     (''STU-3V284FZY'', st\<lparr>ticks := Suc (ticks st), draws := Suc (draws st)\<rparr>)"
  by (simp add: makeUID_def Date_now_next_def Math_random_next_def still_clock_def
      makeUID_at_first makeUID_at_second)

text \<open>
  C1 fails on the code. Three persisted records share the \<^verbatim>\<open>uid\<close> \<^verbatim>\<open>STU-1\<close>;
  the loop of \<^verbatim>\<open>load\<close> runs within one millisecond and the two random numbers
  it draws, \<^verbatim>\<open>0.4fzyo82mvyr\<close> and \<^verbatim>\<open>0.4fzy1k9xw2c\<close> in base 36, differ but share
  their first four digits. The second and the third record both get
  \<^verbatim>\<open>STU-3V284FZY\<close>: a replacement is added to \<^verbatim>\<open>seen\<close> without being looked up
  in it.
\<close>

theorem load_duplicate_uids:
  "(case load still_clock (initial (Items shared_uid) None) of
      Inl e \<Rightarrow> []
    | Inr st \<Rightarrow> map uid (students st)) = [''STU-1'', ''STU-3V284FZY'', ''STU-3V284FZY'']
   \<and> (case load still_clock (initial (Items shared_uid) None) of
         Inl e \<Rightarrow> False
       | Inr st \<Rightarrow> \<not> distinct (map uid (students st)))"
  by (simp add: load_def shared_uid_def initial_def migrate_one_def makeUID_still_clock save_def)

text \<open>
  Where the pass does restore uniqueness: when the identifiers drawn while
  loading differ from one another and from every persisted \<^verbatim>\<open>uid\<close>. At most
  two draws are made for each record, one by the migration and one by the
  uniqueness pass.
\<close>

lemma makeUID_drawn:
  "makeUID E st = (drawn E (ticks st) (draws st), st\<lparr>ticks := Suc (ticks st), draws := Suc (draws st)\<rparr>)"
  by (simp add: makeUID_def Date_now_next_def Math_random_next_def drawn_def)

lemma ensureUnique_fresh:
  assumes inj: "\<And>t d t' d'. d < K \<Longrightarrow> d' < K \<Longrightarrow> d \<noteq> d' \<Longrightarrow> drawn E t d \<noteq> drawn E t' d'"
    and old: "\<And>u t d. u \<in> seen \<union> set (map uid ss) \<Longrightarrow> draws st \<le> d \<Longrightarrow> d < K \<Longrightarrow> u \<noteq> drawn E t d"
    and room: "draws st + length ss \<le> K"
    and res: "ensureUnique E seen ss st = (ss', st')"
  shows "distinct (map uid ss') \<and> set (map uid ss') \<inter> seen = {}
         \<and> draws st \<le> draws st' \<and> draws st' \<le> draws st + length ss"
  using old room res
proof (induction ss arbitrary: seen st ss' st')
  case Nil
  then show ?case by simp
next
  case (Cons s rest)
  obtain rest' where ss': "ss' = (if uid s \<in> seen then s\<lparr>uid := drawn E (ticks st) (draws st)\<rparr> else s) # rest'"
    and rec: "ensureUnique E
                (insert (if uid s \<in> seen then drawn E (ticks st) (draws st) else uid s) seen) rest
                (if uid s \<in> seen then st\<lparr>ticks := Suc (ticks st), draws := Suc (draws st)\<rparr> else st)
              = (rest', st')"
    using Cons.prems(3)
    by (cases "uid s \<in> seen") (auto simp add: makeUID_drawn Let_def split: prod.splits)
  let ?u = "if uid s \<in> seen then drawn E (ticks st) (draws st) else uid s"
  let ?st1 = "if uid s \<in> seen then st\<lparr>ticks := Suc (ticks st), draws := Suc (draws st)\<rparr> else st"
  have d1: "draws st \<le> draws ?st1" "draws ?st1 \<le> Suc (draws st)" by simp_all
  have room1: "draws ?st1 + length rest \<le> K" using Cons.prems(2) by simp
  have u_new: "?u \<notin> seen"
  proof (cases "uid s \<in> seen")
    case True
    have "draws st < K" using Cons.prems(2) by simp
    then show ?thesis using Cons.prems(1) [of _ "draws st" "ticks st"] True by auto
  next
    case False
    then show ?thesis by simp
  qed
  have old1: "v \<noteq> drawn E t d"
    if "v \<in> insert ?u seen \<union> set (map uid rest)" "draws ?st1 \<le> d" "d < K" for v t d
  proof (cases "v = ?u \<and> uid s \<in> seen")
    case True
    then have "draws st \<noteq> d" using that(2) by auto
    moreover have "draws st < K" using Cons.prems(2) by simp
    ultimately show ?thesis using inj [of "draws st" d "ticks st" t] that(3) True by simp
  next
    case False
    then have "v \<in> seen \<union> set (map uid (s # rest))" using that(1) by (auto split: if_splits)
    moreover have "draws st \<le> d" using that(2) d1(1) by simp
    ultimately show ?thesis using Cons.prems(1) that(3) by blast
  qed
  from Cons.IH [OF old1 room1 rec]
  have ih: "distinct (map uid rest')" "set (map uid rest') \<inter> insert ?u seen = {}"
    "draws ?st1 \<le> draws st'" "draws st' \<le> draws ?st1 + length rest"
    by simp_all
  have "uid (if uid s \<in> seen then s\<lparr>uid := drawn E (ticks st) (draws st)\<rparr> else s) = ?u" by simp
  then have uids: "map uid ss' = ?u # map uid rest'" by (simp add: ss')
  show ?case
    unfolding uids using ih u_new d1 by auto
qed

lemma migrate_fresh:
  assumes inj: "\<And>t d t' d'. d < K \<Longrightarrow> d' < K \<Longrightarrow> d \<noteq> d' \<Longrightarrow> drawn E t d \<noteq> drawn E t' d'"
    and persisted: "\<And>r u t d. r \<in> set rs \<Longrightarrow> raw_uid r = Some u \<Longrightarrow> d < K \<Longrightarrow> u \<noteq> drawn E t d"
    and room: "draws st + length rs \<le> K"
    and res: "migrate E rs st = (ss, st')"
  shows "draws st \<le> draws st' \<and> draws st' \<le> draws st + length rs \<and> length ss = length rs
         \<and> (\<forall>u\<in>set (map uid ss). \<forall>t d. draws st' \<le> d \<longrightarrow> d < K \<longrightarrow> u \<noteq> drawn E t d)"
  using persisted room res
proof (induction rs arbitrary: st ss st')
  case Nil
  then show ?case by simp
next
  case (Cons r rest)
  obtain s st1 where one: "migrate_one E r st = (s, st1)" by force
  obtain rest' where ss: "ss = s # rest'" and rec: "migrate E rest st1 = (rest', st')"
    using Cons.prems(3) one by (auto simp add: Let_def split: prod.splits)
  have s: "draws st \<le> draws st1 \<and> draws st1 \<le> Suc (draws st)
           \<and> (\<forall>t d. draws st1 \<le> d \<longrightarrow> d < K \<longrightarrow> uid s \<noteq> drawn E t d)"
  proof (cases "raw_uid r")
    case None
    have k: "draws st < K" using Cons.prems(2) by simp
    from one None obtain tk where "uid s = drawn E tk (draws st)" "draws st1 = Suc (draws st)"
      by (cases "raw_id r")
         (auto simp add: migrate_one_def makeUID_drawn Date_now_next_def Let_def split: prod.splits)
    then show ?thesis using inj [of "draws st" _ tk] k by auto
  next
    case (Some u)
    with one have "uid s = u" "draws st1 = draws st"
      by (cases "raw_id r"; auto simp add: migrate_one_def Date_now_next_def Let_def split: prod.splits)+
    then show ?thesis using Cons.prems(1) [of r u] Some by auto
  qed
  have room1: "draws st1 + length rest \<le> K" using Cons.prems(2) s by simp
  have pers1: "\<And>r u t d. r \<in> set rest \<Longrightarrow> raw_uid r = Some u \<Longrightarrow> d < K \<Longrightarrow> u \<noteq> drawn E t d"
    using Cons.prems(1) by auto
  from Cons.IH [OF pers1 room1 rec]
  have ih: "draws st1 \<le> draws st'" "draws st' \<le> draws st1 + length rest" "length rest' = length rest"
    "\<forall>u\<in>set (map uid rest'). \<forall>t d. draws st' \<le> d \<longrightarrow> d < K \<longrightarrow> u \<noteq> drawn E t d"
    by simp_all
  have "\<forall>t d. draws st' \<le> d \<longrightarrow> d < K \<longrightarrow> uid s \<noteq> drawn E t d"
    using s ih(1) by auto
  then show ?case using s ih by (auto simp add: ss)
qed

lemma load_distinct_when_fresh:
  assumes parsed: "parse_or_empty (localStorage st) = Inr rs"
    and inj: "\<And>t d t' d'. d < draws st + 2 * length rs \<Longrightarrow> d' < draws st + 2 * length rs \<Longrightarrow> d \<noteq> d'
                \<Longrightarrow> drawn E t d \<noteq> drawn E t' d'"
    and persisted: "\<And>r u t d. r \<in> set rs \<Longrightarrow> raw_uid r = Some u \<Longrightarrow> d < draws st + 2 * length rs
                \<Longrightarrow> u \<noteq> drawn E t d"
  shows "\<exists>st'. load E st = Inr st' \<and> distinct (map uid (students st'))"
proof -
  let ?K = "draws st + 2 * length rs"
  obtain migrated st1 where m: "migrate E rs st = (migrated, st1)" by force
  obtain unique st2 where u: "ensureUnique E {} migrated (st1\<lparr>students := migrated\<rparr>) = (unique, st2)"
    by force
  have "draws st + length rs \<le> ?K" by simp
  from migrate_fresh [of ?K E rs st migrated st1, OF inj persisted this m]
  have mig: "draws st1 \<le> draws st + length rs" "length migrated = length rs"
    "\<forall>u\<in>set (map uid migrated). \<forall>t d. draws st1 \<le> d \<longrightarrow> d < ?K \<longrightarrow> u \<noteq> drawn E t d"
    by simp_all
  have old: "v \<noteq> drawn E t d"
    if "v \<in> {} \<union> set (map uid migrated)" "draws (st1\<lparr>students := migrated\<rparr>) \<le> d" "d < ?K" for v t d
    using that mig(3) by auto
  have room: "draws (st1\<lparr>students := migrated\<rparr>) + length migrated \<le> ?K"
    using mig(1,2) by simp
  from ensureUnique_fresh [of ?K E "{}" migrated "st1\<lparr>students := migrated\<rparr>" unique st2, OF inj old room u]
  have "distinct (map uid unique)" by simp
  moreover have "load E st = Inr (save (st2\<lparr>students := unique\<rparr>))"
    by (simp add: load_def parsed m u)
  ultimately show ?thesis by (simp add: save_def)
qed

lemma partB_varied:
  "partB (Math_random varied_draws 0) = ''BBBB''"
  "partB (Math_random varied_draws (Suc 0)) = ''ABBB''"
  "partB (Math_random varied_draws (Suc (Suc 0))) = ''AABB''"
  "partB (Math_random varied_draws (Suc (Suc (Suc 0)))) = ''AAAB''"
  by (simp_all add: varied_draws_def partB_take toUpperCase_def upper_char_def)

lemma drawn_varied:
  "drawn varied_draws t 0 = ''STU-3V28BBBB''"
  "drawn varied_draws t (Suc 0) = ''STU-3V28ABBB''"
  "drawn varied_draws t (Suc (Suc 0)) = ''STU-3V28AABB''"
  "drawn varied_draws t (Suc (Suc (Suc 0))) = ''STU-3V28AAAB''"
proof -
  have A: "partA (Date_now varied_draws t) = ''3V28''"
    by (simp add: varied_draws_def partA_still)
  show "drawn varied_draws t 0 = ''STU-3V28BBBB''"
    "drawn varied_draws t (Suc 0) = ''STU-3V28ABBB''"
    "drawn varied_draws t (Suc (Suc 0)) = ''STU-3V28AABB''"
    "drawn varied_draws t (Suc (Suc (Suc 0))) = ''STU-3V28AAAB''"
    by (simp_all add: drawn_def makeUID_at_def A partB_varied)
qed

lemma below_four:
  "d < 4 \<Longrightarrow> d = 0 \<or> d = Suc 0 \<or> d = Suc (Suc 0) \<or> d = Suc (Suc (Suc 0))" for d :: nat
  by arith

lemma load_distinct_example:
  "\<exists>st'. load varied_draws (initial (Items (take 2 shared_uid)) None) = Inr st'
         \<and> distinct (map uid (students st'))"
proof (rule load_distinct_when_fresh [where rs = "take 2 shared_uid"])
  show "parse_or_empty (localStorage (initial (Items (take 2 shared_uid)) None)) = Inr (take 2 shared_uid)"
    by (simp add: initial_def)
next
  fix t d t' d'
  let ?st = "initial (Items (take 2 shared_uid)) None :: (student, raw_student) component"
  assume "d < draws ?st + 2 * length (take 2 shared_uid)" "d' < draws ?st + 2 * length (take 2 shared_uid)"
    and ne: "d \<noteq> d'"
  then have "d < 4" "d' < 4" by (simp_all add: initial_def shared_uid_def)
  then show "drawn varied_draws t d \<noteq> drawn varied_draws t' d'"
    using ne below_four [of d] below_four [of d'] by (auto simp add: drawn_varied)
next
  fix r u t d
  let ?st = "initial (Items (take 2 shared_uid)) None :: (student, raw_student) component"
  assume "r \<in> set (take 2 shared_uid)" "raw_uid r = Some u" "d < draws ?st + 2 * length (take 2 shared_uid)"
  then have "u = ''STU-1''" "d < 4" by (auto simp add: initial_def shared_uid_def)
  then show "u \<noteq> drawn varied_draws t d"
    using below_four [of d] by (auto simp add: drawn_varied)
qed

subsection \<open>The chart data\<close>

text \<open>
  The richer version draws only the slices with a positive count, Present
  before Absent.
\<close>

lemma renderChart_positive_slices:
  assumes "viewReady st" "attendanceDonut st \<noteq> None" "0 < presentCount st + absentCount st"
  shows "attendanceDonut (renderChart st) =
           Some (Donut ((if 0 < presentCount st then [\<lparr>label = ''Present'', value' = presentCount st\<rparr>] else [])
                        @ (if 0 < absentCount st then [\<lparr>label = ''Absent'', value' = absentCount st\<rparr>] else []))
                   (PercentPresent (presentCount st) (presentCount st + absentCount st)))"
  using assms by (simp add: renderChart_def Let_def)

lemma renderChart_five_present:
  "attendanceDonut (renderChart (roster\<lparr>presentCount := 5, absentCount := 0\<rparr>)) =
     Some (Donut [\<lparr>label = ''Present'', value' = 5\<rparr>] (PercentPresent 5 5))"
  by (simp add: renderChart_def roster_def initial_def)

text \<open>
  C4 fails on the simple version. With five present and nobody absent its
  \<^verbatim>\<open>renderChart\<close> hands both entries to the pie, the Absent one with value 0:
  the array literal is not filtered.
\<close>

theorem simple_renderChart_zero_slice:
  "attendanceDonut (simple_renderChart (simple_roster\<lparr>presentCount := 5, absentCount := 0\<rparr>)) =
     Some (Donut [\<lparr>label = ''Present'', value' = 5\<rparr>, \<lparr>label = ''Absent'', value' = 0\<rparr>]
             (PercentPresent 5 5))"
  by (simp add: simple_renderChart_def simple_roster_def initial_def)

subsection \<open>Adding a student in the two versions\<close>

lemma addStudent_students:
  assumes "trim (addForm_name st) \<noteq> []"
  shows "students (addStudent E st) =
           students st @ [\<lparr>id' = Date_now E (ticks st), name = trim (addForm_name st),
                            type = addForm_type st, attendance = Present,
                            uid = makeUID_at (Date_now E (Suc (ticks st))) (Math_random E (draws st))\<rparr>]"
  using assms
  by (simp add: addStudent_def Let_def Date_now_next_def makeUID_def Math_random_next_def save_def)

lemma simple_addStudent_students:
  assumes "trim (addForm_name q) \<noteq> []"
  shows "students (simple_addStudent E q) =
           students q @ [\<lparr>id' = Num (Date_now E (ticks q)), name = Str (trim (addForm_name q)),
                           type = Str (lit_Type (addForm_type q)), attendance = Str ''Absent''\<rparr>]"
  using assms
  by (simp add: simple_addStudent_def Let_def Date_now_next_def simple_save_def)

text \<open>
  C7. Given the same form and the same clock, the two versions of
  \<^verbatim>\<open>addStudent\<close> append records that agree in \<^verbatim>\<open>id\<close>, \<^verbatim>\<open>name\<close> and \<^verbatim>\<open>type\<close>
  (the time of the call, the trimmed name, the type of the form); the richer
  record has \<^verbatim>\<open>attendance\<close> Present (and a \<^verbatim>\<open>uid\<close>), the simple one Absent. So,
  \<^verbatim>\<open>uid\<close> aside, the two records differ in \<^verbatim>\<open>attendance\<close> and in nothing else,
  and the two operations are not equivalent. Both leave the component as it is
  when the trimmed name is empty.
\<close>

theorem addStudent_versions_differ:
  "(trim (addForm_name st) \<noteq> [] \<and> addForm_name q = addForm_name st
      \<and> addForm_type q = addForm_type st \<and> ticks q = ticks st \<longrightarrow>
      (let new = last (students (addStudent E st)); new' = last (students (simple_addStudent E q))
       in students (addStudent E st) = students st @ [new]
          \<and> students (simple_addStudent E q) = students q @ [new']
          \<and> id' new = Date_now E (ticks st) \<and> id' new' = Num (id' new)
          \<and> name new = trim (addForm_name st) \<and> name new' = Str (name new)
          \<and> type new = addForm_type st \<and> type new' = Str (lit_Type (type new))
          \<and> attendance new = Present \<and> attendance new' = Str ''Absent''
          \<and> plain new = new'\<lparr>attendance := Str ''Present''\<rparr>
          \<and> plain new \<noteq> new'
          \<and> localStorage (addStudent E st) = Items (map toJSON (students st @ [new]))
          \<and> localStorage (simple_addStudent E q) = Items (students q @ [new'])))
   \<and> (trim (addForm_name st) = [] \<longrightarrow> addStudent E st = st)
   \<and> (trim (addForm_name q) = [] \<longrightarrow> simple_addStudent E q = q)"
proof (intro conjI impI)
  assume a: "trim (addForm_name st) \<noteq> [] \<and> addForm_name q = addForm_name st
      \<and> addForm_type q = addForm_type st \<and> ticks q = ticks st"
  then have b: "trim (addForm_name q) \<noteq> []" by simp
  have 1: "localStorage (addStudent E st) = Items (map toJSON (students (addStudent E st)))"
    using a by (simp add: addStudent_def Let_def Date_now_next_def makeUID_def Math_random_next_def save_def)
  have 2: "localStorage (simple_addStudent E q) = Items (students (simple_addStudent E q))"
    using b by (simp add: simple_addStudent_def Let_def Date_now_next_def simple_save_def)
  show "let new = last (students (addStudent E st)); new' = last (students (simple_addStudent E q))
       in students (addStudent E st) = students st @ [new]
          \<and> students (simple_addStudent E q) = students q @ [new']
          \<and> id' new = Date_now E (ticks st) \<and> id' new' = Num (id' new)
          \<and> name new = trim (addForm_name st) \<and> name new' = Str (name new)
          \<and> type new = addForm_type st \<and> type new' = Str (lit_Type (type new))
          \<and> attendance new = Present \<and> attendance new' = Str ''Absent''
          \<and> plain new = new'\<lparr>attendance := Str ''Present''\<rparr>
          \<and> plain new \<noteq> new'
          \<and> localStorage (addStudent E st) = Items (map toJSON (students st @ [new]))
          \<and> localStorage (simple_addStudent E q) = Items (students q @ [new'])"
    unfolding Let_def 1 2
    using a by (simp add: addStudent_students simple_addStudent_students [OF b] plain_def)
next
  assume "trim (addForm_name st) = []"
  then show "addStudent E st = st" by (simp add: addStudent_def)
next
  assume "trim (addForm_name q) = []"
  then show "simple_addStudent E q = q" by (simp add: simple_addStudent_def)
qed

lemma trim_Dana: "trim ''  Dana '' = ''Dana''"
  by (simp add: trim_def is_space_def)

theorem addStudent_versions_differ_witness:
  "last (students (addStudent still_clock (roster\<lparr>addForm_name := ''  Dana ''\<rparr>)))
     = \<lparr>id' = 1700000000000, name = ''Dana'', type = School, attendance = Present, uid = ''STU-3V284FZY''\<rparr>
   \<and> last (students (simple_addStudent still_clock (simple_roster\<lparr>addForm_name := ''  Dana ''\<rparr>)))
     = \<lparr>id' = Num 1700000000000, name = Str ''Dana'', type = Str ''School'', attendance = Str ''Absent''\<rparr>"
proof -
  let ?st = "roster\<lparr>addForm_name := ''  Dana ''\<rparr>"
  let ?q = "simple_roster\<lparr>addForm_name := ''  Dana ''\<rparr>"
  let ?new = "last (students (addStudent still_clock ?st))"
  let ?new' = "last (students (simple_addStudent still_clock ?q))"
  have h: "trim (addForm_name ?st) \<noteq> [] \<and> addForm_name ?q = addForm_name ?st
      \<and> addForm_type ?q = addForm_type ?st \<and> ticks ?q = ticks ?st"
    by (simp add: trim_Dana roster_def simple_roster_def initial_def)
  have "id' ?new = Date_now still_clock (ticks ?st) \<and> id' ?new' = Num (id' ?new)
      \<and> name ?new = trim (addForm_name ?st) \<and> name ?new' = Str (name ?new)
      \<and> type ?new = addForm_type ?st \<and> type ?new' = Str (lit_Type (type ?new))
      \<and> attendance ?new = Present \<and> attendance ?new' = Str ''Absent''"
    using addStudent_versions_differ [of ?st ?q still_clock] h unfolding Let_def by blast
  then have f: "id' ?new = 1700000000000 \<and> id' ?new' = Num 1700000000000
      \<and> name ?new = ''Dana'' \<and> name ?new' = Str ''Dana''
      \<and> type ?new = School \<and> type ?new' = Str ''School''
      \<and> attendance ?new = Present \<and> attendance ?new' = Str ''Absent''"
    by (simp add: trim_Dana roster_def simple_roster_def initial_def still_clock_def)
  have u: "uid ?new = ''STU-3V284FZY''"
    using h by (simp add: addStudent_students still_clock_def roster_def initial_def makeUID_at_first)
  show ?thesis
    using f u by (intro conjI student.equality student_fields.equality) simp_all
qed

end
